theory Spec2Isabelle
  imports Main "HOL-Library.Sublist" "HOL-Library.AList"
begin

section \<open>Text: the string operations of the source\<close>

text \<open>
  Python \<open>str\<close> values are modelled as \<open>string\<close>, the UTF-8 bytes of the text. The
  markers the source searches for are ASCII, and UTF-8 is self-synchronising, so the
  operator \<open>in\<close> on two strings is the contiguous-sublist test on their bytes.
  \<open>str.lower\<close> and \<open>str.strip\<close> are modelled on ASCII: bytes from \<open>0x80\<close> on are left
  alone by \<open>lower\<close> and are not white space for \<open>strip\<close>.
\<close>

definition py_in :: "string \<Rightarrow> string \<Rightarrow> bool" where
  "py_in sub s = sublist sub s"

definition lower_char :: "char \<Rightarrow> char" where
  "lower_char c =
     (case map_of (zip ''ABCDEFGHIJKLMNOPQRSTUVWXYZ'' ''abcdefghijklmnopqrstuvwxyz'') c of
        Some l \<Rightarrow> l
      | None \<Rightarrow> c)"

definition lower :: "string \<Rightarrow> string" where
  "lower s = map lower_char s"

definition is_space :: "char \<Rightarrow> bool" where
  "is_space c = (let n = (of_char c :: nat) in (9 \<le> n \<and> n \<le> 13) \<or> (28 \<le> n \<and> n \<le> 32))"

definition rstrip :: "string \<Rightarrow> string" where
  "rstrip s = rev (dropWhile is_space (rev s))"

definition strip :: "string \<Rightarrow> string" where
  "strip s = rstrip (dropWhile is_space s)"

definition startswith :: "string \<Rightarrow> string \<Rightarrow> bool" where
  "startswith s p = prefix p s"

definition nl :: string where
  "nl = [CHR 0x0A]"

fun join :: "string \<Rightarrow> string list \<Rightarrow> string" where
  "join sep [] = []"
| "join sep [x] = x"
| "join sep (x # y # ys) = x @ sep @ join sep (y # ys)"

definition last_n :: "nat \<Rightarrow> 'a list \<Rightarrow> 'a list" where
  \<comment> \<open>the slice \<open>xs[-n:]\<close> for \<open>n > 0\<close>\<close>
  "last_n n xs = drop (length xs - n) xs"

definition digit_char :: "nat \<Rightarrow> char" where
  "digit_char d = ''0123456789'' ! d"

fun str_nat :: "nat \<Rightarrow> string" where
  "str_nat n = (if n < 10 then [digit_char n] else str_nat (n div 10) @ [digit_char (n mod 10)])"

declare str_nat.simps [simp del]

definition str_int :: "int \<Rightarrow> string" where
  "str_int i = (if i < 0 then CHR ''-'' # str_nat (nat (- i)) else str_nat (nat i))"

text \<open>The non-ASCII signs the messages of the source begin with, as UTF-8.\<close>

definition cross_mark :: string where
  "cross_mark = [CHR 0xE2, CHR 0x9D, CHR 0x8C]"

definition warning_sign :: string where
  "warning_sign = [CHR 0xE2, CHR 0x9A, CHR 0xA0, CHR 0xEF, CHR 0xB8, CHR 0x8F]"

definition check_sign :: string where
  "check_sign = [CHR 0xE2, CHR 0x9C, CHR 0x93]"

definition circle_sign :: string where
  "circle_sign = [CHR 0xE2, CHR 0x97, CHR 0x8B]"

definition magnifier :: string where
  "magnifier = [CHR 0xF0, CHR 0x9F, CHR 0x94, CHR 0x8D]"

definition clipboard :: string where
  "clipboard = [CHR 0xF0, CHR 0x9F, CHR 0x93, CHR 0x8B]"

datatype stream = Stdout | Stderr

section \<open>The manager, the machine it runs on, and the outside world\<close>

text \<open>
  \<open>UIManager\<close> keeps \<open>ui_path\<close>, \<open>ui_process\<close>, \<open>ui_port\<close>, \<open>nat_port\<close> and
  \<open>process_output\<close>. The state below holds these fields together with the parts of
  the machine that \<open>start\<close> and \<open>stop\<close> change: the clock (whole seconds, advanced
  by \<open>time.sleep\<close>), the operator's console (one entry for each \<open>print\<close> of a
  warning or of a failure message; the progress lines are left out, they decide nothing),
  the commands handed to \<open>subprocess\<close> and the signals sent to the child, in order, and
  the lines of the \<open>.env\<close> file in \<open>ui_path\<close> (\<open>None\<close> when the file does not exist).
\<close>

datatype exn = RuntimeError string | OtherException string

datatype command = Argv "string list" | Shell string

datatype effect = Invoked command | Terminated nat | Killed nat

record state =
  ui_path :: string
  ui_process :: "nat option"
  ui_port :: nat
  nat_port :: nat
  process_output :: "string list"
  clock :: nat
  console :: "string list"
  effects :: "effect list"
  env_file :: "string list option"

text \<open>
  What \<open>subprocess.run\<close> with \<open>check=True\<close> and a timeout can do: return, or raise
  \<open>TimeoutExpired\<close> (with the standard error and standard output captured until
  then), \<open>CalledProcessError\<close> (exit code, standard error, standard output),
  \<open>FileNotFoundError\<close> or something else (the text is \<open>str(e)\<close>).
\<close>

datatype run_result =
    Completed
  | TimeoutExpired string string
  | CalledProcessError int string string
  | FileNotFoundError string
  | OtherFailure string

text \<open>
  The world answers every question the code asks of its environment. Answers that can
  change while \<open>start\<close> runs are functions of the time of asking.
\<close>

record world =
  win32 :: bool
  which :: "string \<Rightarrow> string option"
  version_probe :: "command \<Rightarrow> run_result"
  connects :: "nat \<Rightarrow> nat \<Rightarrow> bool"
  input_reply :: "string + string"
  port_kill_raises :: bool
  ui_path_exists :: bool
  git_clone :: run_result
  str_clone_error :: string
  npm_run :: "nat \<Rightarrow> command \<Rightarrow> run_result"
  env_read_error :: "string option"
  env_write_error :: "string option"
  popen :: "string + nat"
  arrivals :: "nat \<Rightarrow> (stream \<times> string) list"
  exit_code :: "nat \<Rightarrow> int option"
  exits_on_terminate :: "nat \<Rightarrow> bool"
  http_get :: "nat \<Rightarrow> string + int"

text \<open>
  \<open>win32\<close>: \<open>sys.platform == "win32"\<close>. \<open>which\<close>: \<open>shutil.which\<close>.
  \<open>version_probe w cmd\<close>: the outcome of running the version query \<open>cmd\<close>.
  \<open>connects w port t\<close>: \<open>connect_ex\<close> to the port returns 0 at time \<open>t\<close>.
  \<open>input_reply\<close>: what \<open>input\<close> returns, or (\<open>Inl\<close>) the text of the exception it
  raises. \<open>port_kill_raises\<close>: running the command that frees the port raises.
  \<open>ui_path_exists\<close>: \<open>self.ui_path.exists()\<close> in step 4. \<open>git_clone\<close>: the outcome of
  the clone, and \<open>str_clone_error\<close> the text \<open>str(e)\<close> of its \<open>CalledProcessError\<close>.
  \<open>npm_run w attempt cmd\<close>: the outcome of the install command run at that attempt.
  \<open>env_read_error\<close>, \<open>env_write_error\<close>: the text of the exception that opening the
  \<open>.env\<close> file for reading or for writing raises, if it does.
  \<open>popen\<close>: the child's pid, or the text of the exception \<open>Popen\<close> raises.
  \<open>arrivals w t\<close>: the lines the two readers append during second \<open>t\<close>, in the order
  they take the lock. \<open>exit_code w t\<close>: what \<open>poll\<close> returns at time \<open>t\<close>.
  \<open>exits_on_terminate w pid\<close>: the child exits within the 5 seconds \<open>stop\<close> waits.
  \<open>http_get w attempt\<close>: the status \<open>urlopen\<close> returns, or the text of its exception.
\<close>

type_synonym 'a result = "(exn + 'a) \<times> state"

definition seq :: "(state \<Rightarrow> 'a result) \<Rightarrow> ('a \<Rightarrow> state \<Rightarrow> 'b result) \<Rightarrow> state \<Rightarrow> 'b result" where
  "seq m f s = (case m s of (Inl e, s') \<Rightarrow> (Inl e, s') | (Inr x, s') \<Rightarrow> f x s')"

definition print_line :: "string \<Rightarrow> state \<Rightarrow> state" where
  "print_line msg s = s\<lparr>console := console s @ [msg]\<rparr>"

definition record_effect :: "effect \<Rightarrow> state \<Rightarrow> state" where
  "record_effect e s = s\<lparr>effects := effects s @ [e]\<rparr>"

definition new_manager :: "string \<Rightarrow> state" where
  \<comment> \<open>\<open>__init__\<close>, on a machine whose clock, console and log start empty\<close>
  "new_manager path = \<lparr>ui_path = path, ui_process = None, ui_port = 3000, nat_port = 8000,
     process_output = [], clock = 0, console = [], effects = [], env_file = None\<rparr>"

section \<open>The captured-output buffer\<close>

text \<open>
  \<open>capture_stdout\<close> and \<open>capture_stderr\<close> each read lines from one pipe of the child.
  A standard-output line is printed when it holds one of five keywords, a
  standard-error line always. Under \<open>output_lock\<close> the reader then appends the tagged
  line to \<open>process_output\<close> and, when the list has grown past 100 entries, pops the entry
  at index 0. The lock makes the two statements one step, so a run of the two readers
  is a sequence of such steps in the order the lock was taken: a list of
  (stream, line) pairs.
\<close>

definition append_output :: "string \<Rightarrow> string list \<Rightarrow> string list" where
  "append_output entry buf =
     (let appended = buf @ [entry]
      in if length appended > 100 then tl appended else appended)"

definition stdout_keywords :: "string list" where
  "stdout_keywords = [''ERROR:'', ''error'', ''Failed'', ''failed'', ''exited with code'']"

definition capture_stdout :: "string \<Rightarrow> state \<Rightarrow> state" where
  "capture_stdout line s =
     (let line_clean = rstrip line;
          s1 = (if list_ex (\<lambda>keyword. py_in keyword line_clean) stdout_keywords
                then print_line (warning_sign @ ''  [STDOUT] '' @ line_clean) s else s)
      in s1\<lparr>process_output := append_output (''[STDOUT] '' @ line_clean) (process_output s1)\<rparr>)"

definition capture_stderr :: "string \<Rightarrow> state \<Rightarrow> state" where
  "capture_stderr line s =
     (let line_clean = rstrip line;
          s1 = print_line (warning_sign @ ''  [STDERR] '' @ line_clean) s
      in s1\<lparr>process_output := append_output (''[STDERR] '' @ line_clean) (process_output s1)\<rparr>)"

definition capture_line :: "stream \<times> string \<Rightarrow> state \<Rightarrow> state" where
  "capture_line ev s = (case ev of (Stdout, line) \<Rightarrow> capture_stdout line s
                                 | (Stderr, line) \<Rightarrow> capture_stderr line s)"

definition capture :: "(stream \<times> string) list \<Rightarrow> state \<Rightarrow> state" where
  "capture evs s = foldl (\<lambda>s' ev. capture_line ev s') s evs"

definition tagged :: "stream \<times> string \<Rightarrow> string" where
  \<comment> \<open>the entry a reader stores for a line\<close>
  "tagged ev = (case ev of
      (Stdout, line) \<Rightarrow> ''[STDOUT] '' @ rstrip line
    | (Stderr, line) \<Rightarrow> ''[STDERR] '' @ rstrip line)"

section \<open>Helpers of the manager\<close>

definition dq :: string where
  "dq = [CHR 0x22]"

definition sq :: string where
  "sq = [CHR 0x27]"

definition succeed :: "'a \<Rightarrow> state \<Rightarrow> 'a result" where
  "succeed x s = (Inr x, s)"

definition raise :: "exn \<Rightarrow> state \<Rightarrow> 'a result" where
  "raise e s = (Inl e, s)"

definition get_command_path :: "world \<Rightarrow> string \<Rightarrow> string" where
  "get_command_path w command =
     (if win32 w then
        (case which w command of Some cmd_path \<Rightarrow> cmd_path | None \<Rightarrow>
        (case which w (command @ ''.cmd'') of Some cmd_path \<Rightarrow> cmd_path | None \<Rightarrow>
        (case which w (command @ ''.bat'') of Some cmd_path \<Rightarrow> cmd_path | None \<Rightarrow> command)))
      else command)"

definition version_query :: "world \<Rightarrow> string \<Rightarrow> command" where
  \<comment> \<open>the command \<open>_check_command_exists\<close> runs\<close>
  "version_query w command =
     (if win32 w then Shell (dq @ get_command_path w command @ dq @ '' --version'')
      else Argv [command, ''--version''])"

definition check_command_exists :: "world \<Rightarrow> string \<Rightarrow> state \<Rightarrow> bool result" where
  \<comment> \<open>an exception other than the three the source catches leaves the method\<close>
  "check_command_exists w command s =
     (let s1 = record_effect (Invoked (version_query w command)) s
      in case version_probe w (version_query w command) of
           Completed \<Rightarrow> (Inr True, s1)
         | TimeoutExpired err out \<Rightarrow> (Inr False, s1)
         | CalledProcessError rc err out \<Rightarrow> (Inr False, s1)
         | FileNotFoundError e \<Rightarrow> (Inr False, s1)
         | OtherFailure e \<Rightarrow> (Inl (OtherException e), s1))"

definition check_port_available :: "world \<Rightarrow> nat \<Rightarrow> state \<Rightarrow> bool" where
  "check_port_available w port s = (\<not> connects w port (clock s))"

definition sleep :: "world \<Rightarrow> nat \<Rightarrow> state \<Rightarrow> state" where
  \<comment> \<open>while the foreground sleeps, the readers of a launched child store what arrives\<close>
  "sleep w d s =
     (let s1 = (if ui_process s \<noteq> None
                then capture (concat (map (arrivals w) [clock s ..< clock s + d])) s else s)
      in s1\<lparr>clock := clock s + d\<rparr>)"

function wait_for_port_loop :: "world \<Rightarrow> nat \<Rightarrow> nat \<Rightarrow> nat \<Rightarrow> state \<Rightarrow> bool \<times> state" where
  "wait_for_port_loop w port timeout start_time s =
     (if clock s - start_time < timeout then
        (if \<not> check_port_available w port s then (True, s)
         else wait_for_port_loop w port timeout start_time (sleep w 2 s))
      else (False, s))"
  by pat_completeness auto
termination
  by (relation "measure (\<lambda>(w, port, timeout, start_time, s). start_time + timeout - clock s)")
     (auto simp: sleep_def Let_def)

declare wait_for_port_loop.simps [simp del]

definition wait_for_port :: "world \<Rightarrow> nat \<Rightarrow> nat \<Rightarrow> state \<Rightarrow> bool \<times> state" where
  "wait_for_port w port timeout s = wait_for_port_loop w port timeout (clock s) s"

definition poll :: "world \<Rightarrow> state \<Rightarrow> int option" where
  \<comment> \<open>\<open>self.ui_process.poll()\<close>; every call site follows the launch of the child\<close>
  "poll w s = exit_code w (clock s)"

section \<open>stop\<close>

text \<open>
  \<open>terminate\<close> and \<open>kill\<close> do not raise on a child of this process, whether it still
  runs or has exited; \<open>wait(timeout=5)\<close> returns or raises \<open>TimeoutExpired\<close>, which the
  source catches. The \<open>finally\<close> clause clears the handle on both paths.
\<close>

definition stop :: "world \<Rightarrow> state \<Rightarrow> state" where
  "stop w s =
     (case ui_process s of
        None \<Rightarrow> s
      | Some pid \<Rightarrow>
          (let s1 = record_effect (Terminated pid) s;
               s2 = (if exits_on_terminate w pid then s1
                     else record_effect (Killed pid)
                            (print_line (warning_sign @ ''  Force killing UI server...'') s1))
           in s2\<lparr>ui_process := None\<rparr>))"

section \<open>start, steps 1 to 4: prerequisites, ports, repository\<close>

definition validate_prerequisites :: "world \<Rightarrow> state \<Rightarrow> unit result" where
  "validate_prerequisites w =
     seq (check_command_exists w ''git'') (\<lambda>git_ok.
       if \<not> git_ok then raise (RuntimeError (cross_mark @ '' git is not installed'')) else
     seq (check_command_exists w ''node'') (\<lambda>node_ok.
       if \<not> node_ok then raise (RuntimeError (cross_mark @ '' Node.js is not installed'')) else
     seq (check_command_exists w ''npm'') (\<lambda>npm_ok.
       if \<not> npm_ok then raise (RuntimeError (cross_mark @ '' npm is not installed'')) else
       succeed ())))"

definition verify_nat_server :: "world \<Rightarrow> state \<Rightarrow> unit result" where
  "verify_nat_server w s =
     (if check_port_available w (nat_port s) s then
        succeed ()
          (print_line ''   The UI may not work properly without it''
            (print_line (warning_sign @ ''  Warning: NAT server doesn'' @ sq @
                 ''t appear to be running on port '' @ str_nat (nat_port s)) s))
      else succeed () s)"

definition kill_port_command :: "nat \<Rightarrow> command" where
  "kill_port_command port =
     Shell (''lsof -ti:'' @ str_nat port @ '' | xargs kill -9 2>/dev/null || '' @
            ''fuser -k '' @ str_nat port @ ''/tcp 2>/dev/null || true'')"

definition check_ui_port :: "world \<Rightarrow> state \<Rightarrow> unit result" where
  \<comment> \<open>the \<open>RuntimeError\<close> raised inside the inner \<open>try\<close> is caught by its
      \<open>except Exception\<close> and replaced, so both failures carry the same message\<close>
  "check_ui_port w s =
     (if \<not> check_port_available w (ui_port s) s then
        (let s1 = print_line (warning_sign @ ''  Port '' @ str_nat (ui_port s) @
                              '' is already in use'') s
         in if \<not> win32 w then
              (case input_reply w of
                 Inl e \<Rightarrow> raise (OtherException e) s1
               | Inr response \<Rightarrow>
                   if lower response = ''y'' then
                     (let s2 = record_effect (Invoked (kill_port_command (ui_port s))) s1
                      in if port_kill_raises w then
                           raise (RuntimeError (cross_mark @ '' Port '' @ str_nat (ui_port s) @
                                    '' is in use and could not be freed'')) s2
                         else
                           (let s3 = sleep w 2 s2
                            in if \<not> check_port_available w (ui_port s) s3 then
                                 raise (RuntimeError (cross_mark @ '' Port '' @
                                          str_nat (ui_port s) @
                                          '' is in use and could not be freed'')) s3
                               else succeed () s3))
                   else succeed () s1)
            else raise (RuntimeError (cross_mark @ '' Port '' @ str_nat (ui_port s) @
                   '' is already in use. Please stop the process using it manually.'')) s1)
      else succeed () s)"

definition clone_command :: "state \<Rightarrow> command" where
  "clone_command s =
     Argv [''git'', ''clone'', ''https://github.com/NVIDIA/NeMo-Agent-Toolkit-UI.git'', ui_path s]"

definition ensure_ui_repo :: "world \<Rightarrow> state \<Rightarrow> unit result" where
  "ensure_ui_repo w s =
     (if \<not> ui_path_exists w then
        (let s1 = record_effect (Invoked (clone_command s)) s
         in case git_clone w of
              Completed \<Rightarrow> succeed () s1
            | TimeoutExpired err out \<Rightarrow>
                raise (RuntimeError (cross_mark @
                  '' Git clone timed out - check your internet connection'')) s1
            | CalledProcessError rc err out \<Rightarrow>
                (let error_msg = (if err \<noteq> [] then err else str_clone_error w)
                 in raise (RuntimeError (cross_mark @ '' Failed to clone repository: '' @
                      error_msg)) s1)
            | FileNotFoundError e \<Rightarrow> raise (OtherException e) s1
            | OtherFailure e \<Rightarrow> raise (OtherException e) s1)
      else succeed () s)"

definition prepare :: "world \<Rightarrow> state \<Rightarrow> unit result" where
  \<comment> \<open>steps 1 to 4 of \<open>start\<close>\<close>
  "prepare w =
     seq (validate_prerequisites w) (\<lambda>_.
     seq (verify_nat_server w) (\<lambda>_.
     seq (check_ui_port w) (\<lambda>_.
     ensure_ui_repo w)))"

section \<open>start, step 5: installing the dependencies\<close>

text \<open>
  The loop \<open>for attempt in range(max_retries)\<close> is a recursion over the list of the
  attempts still to come. \<open>break\<close> returns; \<open>continue\<close> and the end of the loop body go
  on with the rest of the list; when the list is used up the loop ends and \<open>start\<close>
  goes on with step 6.
\<close>

definition lockfile_mismatch :: "string \<Rightarrow> bool" where
  "lockfile_mismatch error_output =
     (py_in ''package-lock.json'' (lower error_output) \<or>
      py_in ''lockfile'' (lower error_output) \<or>
      py_in ''cannot be installed'' (lower error_output))"

definition peer_conflict :: "string \<Rightarrow> bool" where
  "peer_conflict error_output =
     (py_in ''eresolve'' (lower error_output) \<or>
      py_in ''peer dependency'' (lower error_output) \<or>
      py_in ''conflicting peer dependency'' (lower error_output))"

definition install_command :: "world \<Rightarrow> string \<Rightarrow> bool \<Rightarrow> bool \<Rightarrow> command" where
  "install_command w npm_cmd use_npm_install use_legacy_peer_deps =
     (let install_cmd = (if use_npm_install then ''install'' else ''ci'');
          extra_flags = (if use_legacy_peer_deps then '' --legacy-peer-deps'' else [])
      in if win32 w then Shell (dq @ npm_cmd @ dq @ '' '' @ install_cmd @ extra_flags)
         else Argv ([npm_cmd, install_cmd] @
                    (if use_legacy_peer_deps then [''--legacy-peer-deps''] else [])))"

definition install_error_msg :: "int \<Rightarrow> string \<Rightarrow> string \<Rightarrow> string" where
  "install_error_msg returncode err out =
     cross_mark @ '' Failed to install dependencies:'' @ nl @
     (if err \<noteq> [] then nl @ ''STDERR:'' @ nl @ err @ nl else []) @
     (if out \<noteq> [] then nl @ ''STDOUT:'' @ nl @ out @ nl else []) @
     (if err = [] \<and> out = [] then
        nl @ ''(Process exited with code '' @ str_int returncode @ '')'' @ nl @
        ''Try running '' @ sq @ ''npm install'' @ sq @
        '' manually in the NeMo-Agent-Toolkit-UI directory to see the full error.'' @ nl
      else [])"

definition install_timeout_msg :: string where
  "install_timeout_msg = cross_mark @ '' npm install timed out after retries''"

definition retrying :: "string \<Rightarrow> nat \<Rightarrow> nat \<Rightarrow> string" where
  "retrying what attempt max_retries =
     warning_sign @ ''  '' @ what @ '', retrying ('' @ str_nat (attempt + 1) @ ''/'' @
     str_nat max_retries @ '')...''"

fun install_loop ::
  "world \<Rightarrow> string \<Rightarrow> nat \<Rightarrow> nat list \<Rightarrow> bool \<Rightarrow> bool \<Rightarrow> state \<Rightarrow> unit result" where
  "install_loop w npm_cmd max_retries [] use_npm_install use_legacy_peer_deps s = succeed () s"
| "install_loop w npm_cmd max_retries (attempt # rest) use_npm_install use_legacy_peer_deps s =
     (let cmd = install_command w npm_cmd use_npm_install use_legacy_peer_deps;
          s1 = record_effect (Invoked cmd) s
      in case npm_run w attempt cmd of
           Completed \<Rightarrow> succeed () s1
         | TimeoutExpired err out \<Rightarrow>
             if attempt < max_retries - 1 then
               install_loop w npm_cmd max_retries rest use_npm_install use_legacy_peer_deps
                 (print_line (retrying ''Install timed out'' attempt max_retries) s1)
             else raise (RuntimeError install_timeout_msg) s1
         | CalledProcessError returncode err out \<Rightarrow>
             (let error_output = err @ out
              in if \<not> use_npm_install \<and> lockfile_mismatch error_output then
                   install_loop w npm_cmd max_retries rest True use_legacy_peer_deps
                     (print_line (warning_sign @
                        ''  package-lock.json is out of sync, switching to '' @ sq @
                        ''npm install'' @ sq @ ''...'') s1)
                 else if \<not> use_legacy_peer_deps \<and> peer_conflict error_output then
                   install_loop w npm_cmd max_retries rest use_npm_install True
                     (print_line (warning_sign @
                        ''  Peer dependency conflict detected, retrying with --legacy-peer-deps...'')
                        s1)
                 else
                   (let error_msg = install_error_msg returncode err out
                    in if attempt < max_retries - 1 then
                         install_loop w npm_cmd max_retries rest use_npm_install
                           use_legacy_peer_deps
                           (print_line error_msg
                              (print_line (retrying ''Install failed'' attempt max_retries) s1))
                       else raise (RuntimeError error_msg) s1))
         | FileNotFoundError e \<Rightarrow> raise (OtherException e) s1
         | OtherFailure e \<Rightarrow> raise (OtherException e) s1)"

declare install_loop.simps [simp del]

definition max_retries :: nat where
  "max_retries = 2"

definition install_dependencies :: "world \<Rightarrow> state \<Rightarrow> unit result" where
  "install_dependencies w s =
     install_loop w (get_command_path w ''npm'') max_retries [0 ..< max_retries] False False s"

section \<open>start, step 6: the .env file\<close>

text \<open>
  \<open>env_vars\<close> is a Python \<open>dict\<close>: assigning to a key that is present keeps the key's
  place, a new key goes to the end. \<open>AList.update\<close> on an association list does the
  same. The file is the list of its lines, as iterating over it yields them.
\<close>

definition parse_env_line :: "string \<Rightarrow> (string \<times> string) option" where
  "parse_env_line raw =
     (let line = strip raw
      in if line \<noteq> [] \<and> \<not> startswith line ''#'' \<and> CHR ''='' \<in> set line then
           Some (strip (takeWhile (\<lambda>c. c \<noteq> CHR ''='') line),
                 strip (tl (dropWhile (\<lambda>c. c \<noteq> CHR ''='') line)))
         else None)"

definition read_env :: "string list \<Rightarrow> (string \<times> string) list" where
  "read_env lines =
     foldl (\<lambda>env_vars raw. case parse_env_line raw of
                               Some (key, val) \<Rightarrow> AList.update key val env_vars
                             | None \<Rightarrow> env_vars) [] lines"

definition required_vars :: "string \<Rightarrow> string \<Rightarrow> (string \<times> string) list \<Rightarrow> (string \<times> string) list" where
  "required_vars nat_backend_url port env_vars =
     (let env_vars1 = AList.update ''NAT_BACKEND_URL'' nat_backend_url env_vars
      in if ''PORT'' \<notin> set (map fst env_vars1) then AList.update ''PORT'' port env_vars1
         else env_vars1)"

definition write_env :: "(string \<times> string) list \<Rightarrow> string list" where
  "write_env env_vars = map (\<lambda>(key, val). key @ ''='' @ val @ nl) env_vars"

definition nat_backend_url :: "state \<Rightarrow> string" where
  "nat_backend_url s = ''http://localhost:'' @ str_nat (nat_port s)"

definition existing_env :: "state \<Rightarrow> (string \<times> string) list" where
  \<comment> \<open>\<open>env_vars\<close> after the file, if there is one, has been read\<close>
  "existing_env s = (case env_file s of None \<Rightarrow> [] | Some lines \<Rightarrow> read_env lines)"

definition final_env :: "state \<Rightarrow> (string \<times> string) list" where
  \<comment> \<open>\<open>env_vars\<close> when the file is written\<close>
  "final_env s = required_vars (nat_backend_url s) (str_nat (ui_port s)) (existing_env s)"

definition configure_env :: "world \<Rightarrow> state \<Rightarrow> unit result" where
  "configure_env w s =
     (case (if env_file s \<noteq> None then env_read_error w else None) of
        Some e \<Rightarrow> raise (OtherException e) s
      | None \<Rightarrow>
          (case env_write_error w of
             Some e \<Rightarrow> raise (OtherException e) s
           | None \<Rightarrow>
               (let s1 = s\<lparr>env_file := Some (write_env (final_env s))\<rparr>
                in if env_file s1 = None then
                     raise (RuntimeError (cross_mark @ '' Failed to create .env file at '' @
                              ui_path s @ ''/.env'')) s1
                   else succeed () s1)))"

section \<open>start, step 7: launching the child\<close>

definition dev_command :: "world \<Rightarrow> command" where
  "dev_command w =
     (if win32 w then
        Shell (''npx concurrently --kill-others --names '' @ dq @ ''UI'' @ dq @ '' -c '' @
               dq @ ''bgBlue.bold'' @ dq @ '' --hide 1 '' @
               dq @ ''node proxy/server.js'' @ dq @ '' '' @
               dq @ ''npx next dev -p 3099'' @ dq)
      else Argv [get_command_path w ''npm'', ''run'', ''dev''])"

definition start_ui_server :: "world \<Rightarrow> state \<Rightarrow> unit result" where
  "start_ui_server w s =
     (let s1 = record_effect (Invoked (dev_command w)) s
      in case popen w of
           Inl e \<Rightarrow> raise (RuntimeError (cross_mark @ '' Failed to start UI server: '' @ e)) s1
         | Inr pid \<Rightarrow> succeed () (s1\<lparr>ui_process := Some pid\<rparr>))"

definition launch :: "world \<Rightarrow> state \<Rightarrow> unit result" where
  \<comment> \<open>steps 1 to 7 of \<open>start\<close>\<close>
  "launch w =
     seq (prepare w) (\<lambda>_.
     seq (install_dependencies w) (\<lambda>_.
     seq (configure_env w) (\<lambda>_.
     start_ui_server w)))"

section \<open>start, step 8: waiting for readiness\<close>

definition error_keywords :: "string list" where
  "error_keywords =
     [''ERROR:'', ''error'', ''Failed'', ''failed'', ''exited with code'', ''EADDRINUSE'']"

definition crash_message :: "string \<Rightarrow> state \<Rightarrow> string" where
  "crash_message header s =
     (let recent_output = join nl (last_n 50 (process_output s));
          error_msg = header @ nl @
            (if recent_output \<noteq> [] then
               nl @ ''Recent output (last 50 lines):'' @ nl @ recent_output @ nl
             else []);
          error_lines = filter (\<lambda>line. list_ex (\<lambda>keyword. py_in keyword line) error_keywords)
                          (process_output s)
      in error_msg @
         (if error_lines \<noteq> [] then
            nl @ magnifier @ '' Error messages found:'' @ nl @
            join nl (last_n 15 error_lines) @ nl
          else []))"

definition settle_check :: "world \<Rightarrow> state \<Rightarrow> unit result" where
  "settle_check w s =
     (let s1 = sleep w 3 s
      in if poll w s1 \<noteq> None then
           raise (RuntimeError (crash_message
             (cross_mark @ '' UI server process exited before gateway could start:'') s1)) s1
         else succeed () s1)"

definition await_gateway :: "world \<Rightarrow> state \<Rightarrow> unit result" where
  "await_gateway w s =
     (case wait_for_port w (ui_port s) 30 s of (gateway_ready, s1) \<Rightarrow>
        if gateway_ready then
          (if poll w s1 \<noteq> None then
             raise (RuntimeError (cross_mark @
               '' Gateway started but process exited immediately. Output:'' @ nl @
               join nl (last_n 30 (process_output s1)))) s1
           else succeed () s1)
        else
          (if poll w s1 \<noteq> None then
             raise (RuntimeError (crash_message
               (cross_mark @ '' UI server crashed during startup:'') s1)) s1
           else
             raise (RuntimeError (cross_mark @ '' Gateway did not start on port '' @
               str_nat (ui_port s) @ '' within 30 seconds'')) s1))"

definition compilation_complete :: "state \<Rightarrow> bool" where
  "compilation_complete s =
     (let recent_output = join nl (last_n 10 (process_output s))
      in (py_in (check_sign @ '' Compiled'') recent_output \<or> py_in ''Compiled in'' recent_output)
         \<and> \<not> py_in (circle_sign @ '' Compiling'') recent_output)"

function wait_for_compile :: "world \<Rightarrow> nat \<Rightarrow> nat \<Rightarrow> state \<Rightarrow> bool \<times> state" where
  "wait_for_compile w max_wait start_time s =
     (if clock s - start_time < max_wait then
        (if compilation_complete (sleep w 2 s) then (True, sleep w 2 s)
         else if poll w (sleep w 2 s) \<noteq> None then (False, sleep w 2 s)
         else wait_for_compile w max_wait start_time (sleep w 2 s))
      else (False, s))"
  by pat_completeness auto
termination
  by (relation "measure (\<lambda>(w, max_wait, start_time, s). start_time + max_wait - clock s)")
     (auto simp: sleep_def Let_def)

declare wait_for_compile.simps [simp del]

definition compiling_warning :: string where
  "compiling_warning =
     warning_sign @ ''  Next.js may still be compiling - this is normal for first startup''"

definition not_responding_warning :: "string \<Rightarrow> string" where
  "not_responding_warning e = warning_sign @ ''  Next.js not responding on port 3099: '' @ e"

definition not_ready_warning :: string where
  "not_ready_warning = warning_sign @ ''  Warning: Next.js dev server may not be ready yet''"

definition show_recent_output :: "state \<Rightarrow> state" where
  "show_recent_output s =
     (if process_output s \<noteq> [] then
        (let s1 = print_line (nl @ clipboard @ '' Recent Next.js output (last 15 lines):'') s;
             nextjs_lines = filter (\<lambda>line. py_in ''[1]'' line \<or> py_in ''next'' (lower line))
                              (process_output s)
         in print_line (if nextjs_lines \<noteq> [] then join nl (last_n 15 nextjs_lines)
                        else join nl (last_n 15 (process_output s))) s1)
      else s)"

fun verify_nextjs :: "world \<Rightarrow> nat list \<Rightarrow> state \<Rightarrow> state" where
  "verify_nextjs w [] s = s"
| "verify_nextjs w (attempt # rest) s =
     (case http_get w attempt of
        Inr code \<Rightarrow> if code = 200 \<or> code = 404 then s else verify_nextjs w rest s
      | Inl e \<Rightarrow>
          if attempt < 4 then verify_nextjs w rest (sleep w 2 s)
          else verify_nextjs w rest
                 (show_recent_output
                   (print_line (''   This may cause the gateway to show '' @ sq @
                                ''Next.js dev server unavailable'' @ sq)
                     (print_line (not_responding_warning e) s))))"

definition await_nextjs :: "world \<Rightarrow> state \<Rightarrow> state" where
  "await_nextjs w s =
     (case wait_for_port w 3099 60 s of (nextjs_ready, s1) \<Rightarrow>
        if nextjs_ready then
          (case wait_for_compile w 60 (clock s1) s1 of (compiled, s2) \<Rightarrow>
             verify_nextjs w [0 ..< 5]
               (if compiled then s2 else print_line compiling_warning s2))
        else
          print_line ''   The UI may take a moment to fully start''
            (print_line not_ready_warning s1))"

definition final_health_check :: "world \<Rightarrow> state \<Rightarrow> unit result" where
  "final_health_check w s =
     (if poll w s \<noteq> None then
        (let recent_output = join nl (last_n 30 (process_output s))
         in raise (RuntimeError (cross_mark @ '' UI server process has crashed:'' @ nl @
              (if recent_output \<noteq> [] then
                 nl @ ''Recent output (last 30 lines):'' @ nl @ recent_output @ nl
               else []))) s)
      else succeed () s)"

definition await_ready :: "world \<Rightarrow> state \<Rightarrow> unit result" where
  "await_ready w =
     seq (settle_check w) (\<lambda>_.
     seq (await_gateway w) (\<lambda>_.
     seq (\<lambda>s. succeed () (await_nextjs w s)) (\<lambda>_.
     final_health_check w)))"

section \<open>start\<close>

definition start_body :: "world \<Rightarrow> state \<Rightarrow> unit result" where
  \<comment> \<open>the \<open>try\<close> block; returning normally is \<open>return True\<close>\<close>
  "start_body w = seq (launch w) (\<lambda>_. await_ready w)"

definition start :: "world \<Rightarrow> state \<Rightarrow> bool \<times> state" where
  "start w s =
     (case start_body w s of
        (Inr _, s1) \<Rightarrow> (True, s1)
      | (Inl (RuntimeError msg), s1) \<Rightarrow> (False, stop w (print_line msg s1))
      | (Inl (OtherException e), s1) \<Rightarrow>
          (False, stop w (print_line (cross_mark @ '' Unexpected error: '' @ e) s1)))"

section \<open>Notions used in the statements\<close>


definition npm_ci :: "world \<Rightarrow> command" where
  \<comment> \<open>the install command while both flags are unset\<close>
  "npm_ci w = install_command w (get_command_path w ''npm'') False False"

text \<open>
  \<open>gateway_ready\<close> is the variable of that name in step 8, for a run whose step 7 ended
  in state \<open>s1\<close>; \<open>gateway_state\<close> is the state in which it has been assigned.
\<close>

definition gateway_ready :: "world \<Rightarrow> state \<Rightarrow> bool" where
  "gateway_ready w s1 = fst (wait_for_port w (ui_port s1) 30 (sleep w 3 s1))"

definition gateway_state :: "world \<Rightarrow> state \<Rightarrow> state" where
  "gateway_state w s1 = snd (wait_for_port w (ui_port s1) 30 (sleep w 3 s1))"

definition version_queries :: "world \<Rightarrow> command set" where
  "version_queries w =
     {version_query w ''git'', version_query w ''node'', version_query w ''npm''}"

section \<open>Concrete worlds and states\<close>

text \<open>
  A world in which every step of \<open>start\<close> goes well, on a Unix-like system: the tools
  answer, the backend listens on 8000, port 3000 is free at first and answers from
  second 3 on, port 3099 from second 5 on, the repository is there, the install
  succeeds, and the child reports a finished compilation during second 6.
\<close>

definition calm_world :: world where
  "calm_world = \<lparr>win32 = False, which = (\<lambda>_. None), version_probe = (\<lambda>_. Completed),
     connects = (\<lambda>port t. port = 8000 \<or> (port = 3000 \<and> 3 \<le> t) \<or> (port = 3099 \<and> 5 \<le> t)),
     input_reply = Inr ''n'', port_kill_raises = False, ui_path_exists = True,
     git_clone = Completed, str_clone_error = [], npm_run = (\<lambda>_ _. Completed),
     env_read_error = None, env_write_error = None, popen = Inr 4242,
     arrivals = (\<lambda>t. if t = 6 then [(Stdout, check_sign @ '' Compiled / in 2s'' @ nl)] else []),
     exit_code = (\<lambda>_. None), exits_on_terminate = (\<lambda>_. True),
     http_get = (\<lambda>_. Inr 200)\<rparr>"

definition stubborn_world :: world where
  \<comment> \<open>the child ignores the termination signal\<close>
  "stubborn_world = calm_world\<lparr>exits_on_terminate := (\<lambda>_. False)\<rparr>"

definition running_manager :: state where
  "running_manager = (new_manager ''ui'')\<lparr>ui_process := Some 4242\<rparr>"




definition late_lockfile_world :: world where
  \<comment> \<open>the first attempt times out, the second reports a lockfile mismatch\<close>
  "late_lockfile_world = calm_world\<lparr>npm_run := (\<lambda>attempt _.
      if attempt = 0 then TimeoutExpired [] []
      else CalledProcessError 1 ''package-lock.json out of sync'' [])\<rparr>"

definition early_lockfile_world :: world where
  \<comment> \<open>the first attempt reports a lockfile mismatch, the second times out\<close>
  "early_lockfile_world = calm_world\<lparr>npm_run := (\<lambda>attempt _.
      if attempt = 0 then CalledProcessError 1 ''package-lock.json out of sync'' []
      else TimeoutExpired [] [])\<rparr>"




definition no_git_world :: world where
  "no_git_world = calm_world\<lparr>version_probe :=
     (\<lambda>c. if c = Argv [''git'', ''--version''] then FileNotFoundError ''git'' else Completed)\<rparr>"


definition tools_checked :: state where
  \<comment> \<open>a new manager after steps 1 to 4 in one of the worlds above\<close>
  "tools_checked = (new_manager ''ui'')\<lparr>effects :=
     [Invoked (Argv [''git'', ''--version'']), Invoked (Argv [''node'', ''--version'']),
      Invoked (Argv [''npm'', ''--version''])]\<rparr>"

definition launched :: state where
  \<comment> \<open>a new manager after steps 1 to 7\<close>
  "launched = (new_manager ''ui'')\<lparr>ui_process := Some 4242,
     effects := [Invoked (Argv [''git'', ''--version'']), Invoked (Argv [''node'', ''--version'']),
       Invoked (Argv [''npm'', ''--version'']), Invoked (Argv [''npm'', ''ci'']),
       Invoked (Argv [''npm'', ''run'', ''dev''])],
     env_file := Some [''NAT_BACKEND_URL=http://localhost:8000'' @ nl, ''PORT=3000'' @ nl]\<rparr>"

section \<open>Properties of the buffer\<close>

lemma append_output_last_n:
  "length buf \<le> 100 \<Longrightarrow> append_output e buf = last_n 100 (buf @ [e])"
  by (cases buf) (auto simp: append_output_def last_n_def Let_def drop_Cons')

lemma last_n_snoc:
  assumes "0 < n"
  shows "last_n n (last_n n xs @ [e]) = last_n n (xs @ [e])"
proof -
  have "Suc (length xs) - (length xs - n + n) + (length xs - n) = Suc (length xs) - n"
    using assms by arith
  then show ?thesis by (simp add: last_n_def)
qed

lemma length_last_n: "length (last_n n xs) = min n (length xs)"
  by (auto simp: last_n_def)

lemma process_output_capture_line:
  "process_output (capture_line ev s) = append_output (tagged ev) (process_output s)"
  by (cases ev rule: prod.exhaust, rename_tac src line, case_tac src)
     (simp_all add: capture_line_def capture_stdout_def capture_stderr_def tagged_def
        print_line_def Let_def)

lemma capture_snoc: "capture (evs @ [ev]) s = capture_line ev (capture evs s)"
  by (simp add: capture_def)

lemma process_output_capture:
  "length (process_output s) \<le> 100 \<Longrightarrow>
   process_output (capture evs s) = last_n 100 (process_output s @ map tagged evs)"
proof (induction evs rule: rev_induct)
  case Nil
  then show ?case by (simp add: capture_def last_n_def)
next
  case (snoc ev evs)
  have prev: "process_output (capture evs s) = last_n 100 (process_output s @ map tagged evs)"
    using snoc by simp
  have "length (process_output (capture evs s)) \<le> 100"
    by (simp add: prev length_last_n)
  then have "process_output (capture (evs @ [ev]) s)
             = last_n 100 (process_output (capture evs s) @ [tagged ev])"
    by (simp add: capture_snoc process_output_capture_line append_output_last_n)
  also have "\<dots> = last_n 100 ((process_output s @ map tagged evs) @ [tagged ev])"
    unfolding prev by (rule last_n_snoc) simp
  finally show ?case by simp
qed

text \<open>
  C3. The buffer is a bounded FIFO of size 100. Whenever it starts within the bound (as
  the empty buffer of a new manager does), then after every prefix of any interleaving
  of the two readers' lines it holds at most 100 entries, and after more than 100 lines
  it holds exactly the 100 most recent tagged lines in arrival order, everything older
  having been evicted from the front.
\<close>

theorem capture_bounded_fifo:
  assumes "length (process_output s) \<le> 100"
  shows "(\<forall>k \<le> length evs. length (process_output (capture (take k evs) s)) \<le> 100)
   \<and> (length evs > 100 \<longrightarrow>
        process_output (capture evs s) = map tagged (drop (length evs - 100) evs))"
proof -
  have "length (process_output (capture (take k evs) s)) \<le> 100" for k
    using assms by (simp add: process_output_capture length_last_n)
  moreover have "process_output (capture evs s) = map tagged (drop (length evs - 100) evs)"
    if "length evs > 100"
    using assms that by (simp add: process_output_capture last_n_def drop_map)
  ultimately show ?thesis by simp
qed

theorem capture_bounded_fifo_witness:
  "length (process_output (new_manager ''ui'')) \<le> 100
   \<and> length ((Stderr, ''oldest  '') # replicate 100 (Stdout, ''recent'')) > 100
   \<and> process_output (capture ((Stderr, ''oldest  '') # replicate 100 (Stdout, ''recent''))
        (new_manager ''ui'')) = replicate 100 ''[STDOUT] recent''"
proof -
  have b: "length (process_output (new_manager ''ui'')) \<le> 100"
    by (simp add: new_manager_def)
  have r: "rstrip ''recent'' = ''recent''"
    by (simp add: rstrip_def is_space_def)
  show ?thesis
    using capture_bounded_fifo [OF b, of "(Stderr, ''oldest  '') # replicate 100 (Stdout, ''recent'')"]
    by (simp add: new_manager_def tagged_def r)
qed

section \<open>Properties of stop\<close>

text \<open>
  C6. \<open>stop\<close> is idempotent. It is a total function of the state, so it cannot fail;
  after any call the handle is absent, whether the child left on the termination signal
  or had to be killed; without a tracked handle it changes nothing; and a second call
  right after a first changes nothing.
\<close>

theorem stop_idempotent:
  "ui_process (stop w s) = None
   \<and> (ui_process s = None \<longrightarrow> stop w s = s)
   \<and> stop w (stop w s) = stop w s
   \<and> (\<forall>pid. ui_process s = Some pid \<longrightarrow>
         effects (stop w s) = effects s @
           (if exits_on_terminate w pid then [Terminated pid]
            else [Terminated pid, Killed pid]))"
  by (auto simp: stop_def Let_def record_effect_def print_line_def split: option.splits)

theorem stop_idempotent_witness:
  "ui_process running_manager = Some 4242
   \<and> ui_process (stop stubborn_world running_manager) = None
   \<and> effects (stop stubborn_world running_manager) = [Terminated 4242, Killed 4242]
   \<and> stop stubborn_world (stop stubborn_world running_manager)
       = stop stubborn_world running_manager
   \<and> ui_process (new_manager ''ui'') = None
   \<and> stop stubborn_world (new_manager ''ui'') = new_manager ''ui''"
  using stop_idempotent [of stubborn_world running_manager]
        stop_idempotent [of stubborn_world "new_manager ''ui''"]
  by (simp add: running_manager_def new_manager_def stubborn_world_def calm_world_def)

section \<open>Properties of the .env step\<close>

















lemma str_nat_8000: "str_nat 8000 = ''8000''"
  by (simp add: str_nat.simps digit_char_def)

lemma str_nat_3000: "str_nat 3000 = ''3000''"
  by (simp add: str_nat.simps digit_char_def)





section \<open>Properties of the install step\<close>

lemma two_attempts: "[0 ..< 2] = [0, 1::nat]"
  by (simp add: upt_rec)


lemmas prepare_defs = prepare_def seq_def validate_prerequisites_def check_command_exists_def
  version_query_def verify_nat_server_def check_ui_port_def ensure_ui_repo_def
  check_port_available_def succeed_def raise_def record_effect_def

lemmas launch_defs = launch_def install_dependencies_def max_retries_def two_attempts
  install_loop.simps install_command_def get_command_path_def configure_env_def
  start_ui_server_def dev_command_def print_line_def Let_def

lemmas string_defs = py_in_def lower_def lower_char_def sublist_Cons_right rstrip_def is_space_def
  nl_def check_sign_def circle_sign_def warning_sign_def cross_mark_def






lemma seq_Inl: "m s = (Inl e, s') \<Longrightarrow> seq m f s = (Inl e, s')"
  by (simp add: seq_def)

lemma seq_Inr: "m s = (Inr x, s') \<Longrightarrow> seq m f s = f x s'"
  by (simp add: seq_def)



lemma start_of_body:
  "start_body w s = (Inr u, s') \<Longrightarrow> start w s = (True, s')"
  "start_body w s = (Inl (RuntimeError m), s') \<Longrightarrow> start w s = (False, stop w (print_line m s'))"
  "start_body w s = (Inl (OtherException e), s') \<Longrightarrow>
     start w s = (False, stop w (print_line (cross_mark @ '' Unexpected error: '' @ e) s'))"
  by (simp_all add: start_def)








section \<open>Properties of the readiness steps\<close>

lemma print_line_fields [simp]:
  "ui_process (print_line m s) = ui_process s"
  "effects (print_line m s) = effects s"
  "clock (print_line m s) = clock s"
  "ui_port (print_line m s) = ui_port s"
  by (simp_all add: print_line_def)

lemma capture_line_fields [simp]:
  "ui_process (capture_line ev s) = ui_process s"
  "ui_port (capture_line ev s) = ui_port s"
  "clock (capture_line ev s) = clock s"
  "effects (capture_line ev s) = effects s"
  by (cases ev rule: prod.exhaust, rename_tac src line, case_tac src,
      simp_all add: capture_line_def capture_stdout_def capture_stderr_def print_line_def Let_def)+


lemma capture_Nil: "capture [] s = s"
  by (simp add: capture_def)

lemma capture_fields [simp]:
  "ui_process (capture evs s) = ui_process s
   \<and> ui_port (capture evs s) = ui_port s
   \<and> clock (capture evs s) = clock s
   \<and> effects (capture evs s) = effects s"
  by (induction evs rule: rev_induct) (simp_all add: capture_Nil capture_snoc)


lemma sleep_fields [simp]:
  "ui_process (sleep w d s) = ui_process s"
  "ui_port (sleep w d s) = ui_port s"
  "clock (sleep w d s) = clock s + d"
  "effects (sleep w d s) = effects s"
  by (simp_all add: sleep_def Let_def)




lemma wait_first_poll:
  assumes "connects w port (clock s)" and "0 < timeout"
  shows "wait_for_port w port timeout s = (True, s)"
  using assms unfolding wait_for_port_def
  by (subst wait_for_port_loop.simps) (simp add: check_port_available_def)



lemma show_recent_output_fields:
  "ui_process (show_recent_output s) = ui_process s
   \<and> ui_port (show_recent_output s) = ui_port s
   \<and> effects (show_recent_output s) = effects s
   \<and> clock (show_recent_output s) = clock s
   \<and> set (console s) \<subseteq> set (console (show_recent_output s))"
  by (auto simp: show_recent_output_def print_line_def Let_def)






lemma await_ready_unfold:
  "await_ready w s1 =
     (if poll w (sleep w 3 s1) \<noteq> None then
        (Inl (RuntimeError (crash_message
           (cross_mark @ '' UI server process exited before gateway could start:'')
           (sleep w 3 s1))), sleep w 3 s1)
      else if gateway_ready w s1 then
        (if poll w (gateway_state w s1) \<noteq> None then
           (Inl (RuntimeError (cross_mark @
               '' Gateway started but process exited immediately. Output:'' @ nl @
               join nl (last_n 30 (process_output (gateway_state w s1))))), gateway_state w s1)
         else final_health_check w (await_nextjs w (gateway_state w s1)))
      else if poll w (gateway_state w s1) \<noteq> None then
        (Inl (RuntimeError (crash_message
           (cross_mark @ '' UI server crashed during startup:'') (gateway_state w s1))),
         gateway_state w s1)
      else
        (Inl (RuntimeError (cross_mark @ '' Gateway did not start on port '' @
               str_nat (ui_port s1) @ '' within 30 seconds'')), gateway_state w s1))"
proof -
  obtain r g where p: "wait_for_port w (ui_port s1) 30 (sleep w 3 s1) = (r, g)"
    by (cases "wait_for_port w (ui_port s1) 30 (sleep w 3 s1)")
  show ?thesis
    by (simp add: await_ready_def seq_def settle_check_def await_gateway_def gateway_ready_def
          gateway_state_def Let_def raise_def succeed_def p)
qed





lemma await_ready_ok:
  assumes "gateway_ready w s1" and "\<forall>t. exit_code w t = None"
  shows "await_ready w s1 = (Inr (), await_nextjs w (gateway_state w s1))"
  using assms
  by (simp add: await_ready_unfold final_health_check_def poll_def succeed_def)


lemma stop_effects:
  "effects (stop w x) = effects x @
     (case ui_process x of None \<Rightarrow> []
      | Some pid \<Rightarrow> if exits_on_terminate w pid then [Terminated pid]
                    else [Terminated pid, Killed pid])"
  by (auto simp: stop_def Let_def record_effect_def print_line_def split: option.splits)



lemma start_body_ok:
  assumes "launch w s = (Inr (), s1)" and "gateway_ready w s1" and "\<forall>t. exit_code w t = None"
  shows "start_body w s = (Inr (), await_nextjs w (gateway_state w s1))"
  using assms by (simp add: start_body_def seq_def await_ready_ok)

text \<open>
  C1. The specification has a failure recognised as a lockfile mismatch (or a
  peer-dependency conflict) flip its flag and the install run again at once with the
  other command, without using up an attempt. In the source the \<open>continue\<close> sits in
  \<open>for attempt in range(max_retries)\<close> and so moves on to the next attempt number.
  Step 5 is run in two worlds. Where the first attempt times out and the second
  reports a lockfile mismatch, the two attempts are used up by \<open>npm ci\<close>,
  \<open>npm install\<close> is never run, and the loop ends without raising, so \<open>start\<close> goes on
  with step 6 as after a successful install and, the rest going well, returns \<open>True\<close>.
  Where the first attempt reports the mismatch and the second, now \<open>npm install\<close>,
  times out, step 5 gives up after that single timeout.
\<close>

theorem reclassified_failure_costs_attempt:
  "npm_run late_lockfile_world 1 (npm_ci late_lockfile_world)
     = CalledProcessError 1 ''package-lock.json out of sync'' []
   \<and> lockfile_mismatch ''package-lock.json out of sync''
   \<and> fst (install_dependencies late_lockfile_world tools_checked) = Inr ()
   \<and> effects (snd (install_dependencies late_lockfile_world tools_checked)) =
       effects tools_checked @
         [Invoked (Argv [''npm'', ''ci'']), Invoked (Argv [''npm'', ''ci''])]
   \<and> fst (start late_lockfile_world (new_manager ''ui'')) = True
   \<and> fst (install_dependencies early_lockfile_world tools_checked)
       = Inl (RuntimeError install_timeout_msg)
   \<and> effects (snd (install_dependencies early_lockfile_world tools_checked)) =
       effects tools_checked @
         [Invoked (Argv [''npm'', ''ci'']), Invoked (Argv [''npm'', ''install''])]"
proof -
  have m: "lockfile_mismatch ''package-lock.json out of sync''"
    by (simp add: lockfile_mismatch_def string_defs)
  have late: "install_dependencies late_lockfile_world tools_checked =
      (Inr (), tools_checked\<lparr>
         console := [retrying ''Install timed out'' 0 2,
                     warning_sign @ ''  package-lock.json is out of sync, switching to '' @ sq @
                       ''npm install'' @ sq @ ''...''],
         effects := effects tools_checked @
           [Invoked (Argv [''npm'', ''ci'']), Invoked (Argv [''npm'', ''ci''])]\<rparr>)"
    by (simp add: launch_defs succeed_def raise_def record_effect_def m
          late_lockfile_world_def calm_world_def tools_checked_def new_manager_def)
  have early: "install_dependencies early_lockfile_world tools_checked =
      (Inl (RuntimeError install_timeout_msg), tools_checked\<lparr>
         console := [warning_sign @ ''  package-lock.json is out of sync, switching to '' @ sq @
                       ''npm install'' @ sq @ ''...''],
         effects := effects tools_checked @
           [Invoked (Argv [''npm'', ''ci'']), Invoked (Argv [''npm'', ''install''])]\<rparr>)"
    by (simp add: launch_defs succeed_def raise_def record_effect_def m
          early_lockfile_world_def calm_world_def tools_checked_def new_manager_def)
  have out: "npm_run late_lockfile_world 1 (npm_ci late_lockfile_world)
      = CalledProcessError 1 ''package-lock.json out of sync'' []"
    by (simp add: late_lockfile_world_def calm_world_def)
  have l: "launch late_lockfile_world (new_manager ''ui'') =
      (Inr (), launched\<lparr>
         console := [retrying ''Install timed out'' 0 2,
                     warning_sign @ ''  package-lock.json is out of sync, switching to '' @ sq @
                       ''npm install'' @ sq @ ''...''],
         effects := effects tools_checked @
           [Invoked (Argv [''npm'', ''ci'']), Invoked (Argv [''npm'', ''ci'']),
            Invoked (Argv [''npm'', ''run'', ''dev''])]\<rparr>)"
    by (simp add: prepare_defs launch_defs m late_lockfile_world_def calm_world_def
          tools_checked_def launched_def new_manager_def existing_env_def final_env_def
          required_vars_def write_env_def nat_backend_url_def str_nat_8000 str_nat_3000)
  have g: "gateway_ready late_lockfile_world (launched\<lparr>
         console := [retrying ''Install timed out'' 0 2,
                     warning_sign @ ''  package-lock.json is out of sync, switching to '' @ sq @
                       ''npm install'' @ sq @ ''...''],
         effects := effects tools_checked @
           [Invoked (Argv [''npm'', ''ci'']), Invoked (Argv [''npm'', ''ci'']),
            Invoked (Argv [''npm'', ''run'', ''dev''])]\<rparr>)"
    unfolding gateway_ready_def
    by (subst wait_first_poll)
       (simp_all add: late_lockfile_world_def calm_world_def launched_def new_manager_def)
  have x: "\<forall>t. exit_code late_lockfile_world t = None"
    by (simp add: late_lockfile_world_def calm_world_def)
  have up: "fst (start late_lockfile_world (new_manager ''ui'')) = True"
    using start_of_body(1)[OF start_body_ok[OF l g x]] by simp
  show ?thesis
    using out up by (simp add: late early m)
qed

section \<open>Properties of start\<close>

lemma check_command_exists_result:
  assumes "check_command_exists w c s = (r, s')"
  shows "effects s' = effects s @ [Invoked (version_query w c)] \<and> ui_process s' = ui_process s
         \<and> (r = Inr True \<longleftrightarrow> version_probe w (version_query w c) = Completed)"
  using assms
  by (cases "version_probe w (version_query w c)")
     (auto simp: check_command_exists_def Let_def record_effect_def)

lemma validate_prerequisites_result:
  assumes "validate_prerequisites w s = (r, s')"
  shows "(\<exists>qs. effects s' = effects s @ qs \<and> (\<forall>e \<in> set qs. \<exists>c \<in> version_queries w. e = Invoked c))
         \<and> ui_process s' = ui_process s
         \<and> (r = Inr () \<longrightarrow> version_probe w (version_query w ''git'') = Completed
                          \<and> version_probe w (version_query w ''node'') = Completed
                          \<and> version_probe w (version_query w ''npm'') = Completed)"
proof -
  obtain r1 sa where c1: "check_command_exists w ''git'' s = (r1, sa)"
    by (cases "check_command_exists w ''git'' s")
  obtain r2 sb where c2: "check_command_exists w ''node'' sa = (r2, sb)"
    by (cases "check_command_exists w ''node'' sa")
  obtain r3 sc where c3: "check_command_exists w ''npm'' sb = (r3, sc)"
    by (cases "check_command_exists w ''npm'' sb")
  note f1 = check_command_exists_result[OF c1]
  note f2 = check_command_exists_result[OF c2]
  note f3 = check_command_exists_result[OF c3]
  have stop1: "s' = sa \<and> r \<noteq> Inr ()" if "r1 \<noteq> Inr True"
    using assms c1 that
    by (cases r1) (auto simp: validate_prerequisites_def seq_def raise_def)
  have stop2: "s' = sb \<and> r \<noteq> Inr ()" if "r1 = Inr True" and "r2 \<noteq> Inr True"
    using assms c1 c2 that
    by (cases r2) (auto simp: validate_prerequisites_def seq_def raise_def)
  have stop3: "s' = sc \<and> (r = Inr () \<longrightarrow> r3 = Inr True)" if "r1 = Inr True" and "r2 = Inr True"
    using assms c1 c2 c3 that
    by (cases r3) (auto simp: validate_prerequisites_def seq_def raise_def succeed_def
                         split: if_splits)
  consider "r1 \<noteq> Inr True" | "r1 = Inr True" "r2 \<noteq> Inr True" | "r1 = Inr True" "r2 = Inr True"
    by blast
  then show ?thesis
  proof cases
    case 1
    then show ?thesis using stop1 f1 by (auto simp: version_queries_def)
  next
    case 2
    then show ?thesis using stop2 f1 f2 by (auto simp: version_queries_def)
  next
    case 3
    then show ?thesis using stop3 f1 f2 f3 by (auto simp: version_queries_def)
  qed
qed

text \<open>
  C5. When the version query of \<open>git\<close>, \<open>node\<close> or \<open>npm\<close> does not complete, \<open>start\<close>
  returns \<open>False\<close>, and every command handed to \<open>subprocess\<close> during the call is one
  of the three version queries: neither the clone, nor an install, nor the UI command
  is invoked. (The \<open>stop\<close> of the failure path may signal a child tracked from an
  earlier call.)
\<close>

theorem missing_tool_short_circuit:
  assumes "version_probe w (version_query w ''git'') \<noteq> Completed
         \<or> version_probe w (version_query w ''node'') \<noteq> Completed
         \<or> version_probe w (version_query w ''npm'') \<noteq> Completed"
  shows "fst (start w s) = False
   \<and> (\<exists>new. effects (snd (start w s)) = effects s @ new
         \<and> (\<forall>c. Invoked c \<in> set new \<longrightarrow> c \<in> version_queries w))"
proof -
  obtain r s' where v: "validate_prerequisites w s = (r, s')"
    by (cases "validate_prerequisites w s")
  note f = validate_prerequisites_result[OF v]
  obtain e where e: "r = Inl e" using f assms by (cases r) auto
  obtain qs where qs: "effects s' = effects s @ qs" "\<forall>e \<in> set qs. \<exists>c \<in> version_queries w. e = Invoked c"
    using f by blast
  have b: "start_body w s = (Inl e, s')"
    using v e by (simp add: start_body_def launch_def prepare_def seq_def)
  obtain m where st: "start w s = (False, stop w (print_line m s'))"
    using start_of_body(2,3)[of w s _ s'] b by (cases e) auto
  have "effects (snd (start w s)) = effects s @ (qs @
      (case ui_process s' of None \<Rightarrow> []
      | Some pid \<Rightarrow> if exits_on_terminate w pid then [Terminated pid]
                    else [Terminated pid, Killed pid]))"
    using st qs by (simp add: stop_effects)
  moreover have "\<forall>c. Invoked c \<in> set (qs @
      (case ui_process s' of None \<Rightarrow> []
      | Some pid \<Rightarrow> if exits_on_terminate w pid then [Terminated pid]
                    else [Terminated pid, Killed pid])) \<longrightarrow> c \<in> version_queries w"
    using qs(2) by (auto split: option.splits if_splits)
  ultimately show ?thesis using st by auto
qed

theorem missing_tool_short_circuit_witness:
  "version_probe no_git_world (version_query no_git_world ''git'') \<noteq> Completed
   \<and> fst (start no_git_world running_manager) = False
   \<and> (\<exists>new. effects (snd (start no_git_world running_manager)) = effects running_manager @ new
         \<and> (\<forall>c. Invoked c \<in> set new \<longrightarrow> c \<in> version_queries no_git_world))"
proof -
  have p: "version_probe no_git_world (version_query no_git_world ''git'') \<noteq> Completed"
    by (simp add: no_git_world_def calm_world_def version_query_def)
  show ?thesis
    using missing_tool_short_circuit [of no_git_world running_manager] p by simp
qed







end
